theory Spec2Isabelle
  imports Complex_Main
begin

section \<open>Data model\<close>

text \<open>
  The controller of \<^verbatim>\<open>scripts/turtlesim_controller.py\<close>. Python integers are
  \<^typ>\<open>int\<close>. A finite Python float is the real number it denotes, so that
  comparison, \<^verbatim>\<open>abs\<close> and the sign are the ones of \<^typ>\<open>real\<close>; the rounded
  operations on floats are a parameter of the model (see \<open>float_ops\<close> below).
  The leading underscore of the private attributes is dropped, since an
  Isabelle name cannot start with one.
\<close>

text \<open>\<^verbatim>\<open>turtlesim.msg.Pose\<close>: the fields the controller reads.\<close>

record Pose =
  x :: real
  y :: real
  theta :: real

text \<open>
  \<^verbatim>\<open>geometry_msgs.msg.Twist\<close>: two vectors \<^verbatim>\<open>linear\<close> and \<^verbatim>\<open>angular\<close>,
  flattened, so that \<^verbatim>\<open>cmd_vel.linear.x\<close> is the field \<open>linear_x\<close>.
\<close>

record Twist =
  linear_x :: real
  linear_y :: real
  linear_z :: real
  angular_x :: real
  angular_y :: real
  angular_z :: real

record Param =
  num_of_sides :: int
  length_of_side :: real
  turn_direction_th :: real

text \<open>The turtle's pose is \<^verbatim>\<open>None\<close> until the first message arrives.\<close>

record Turtle =
  pose :: "Pose option"
  velocity :: real
  yawrate :: real

record TurtlesimController =
  param :: Param
  turtle :: Turtle
  prev_turn_pose :: "Pose option"
  turn_count :: int

text \<open>
  The private parameters of the node on the parameter server; \<open>None\<close> is a
  parameter that is not set.
\<close>

record RosParams =
  ros_num_of_sides :: "int option"
  ros_length_of_side :: "real option"
  ros_turn_direction_th :: "real option"
  ros_velocity :: "real option"
  ros_yawrate :: "real option"

datatype error = ZeroDivisionError | AttributeError

text \<open>
  What a call does: \<open>None\<close> when it does not return, \<open>Some (Inl e)\<close> when it
  raises \<open>e\<close>, \<open>Some (Inr v)\<close> when it returns \<open>v\<close>.
\<close>

type_synonym 'a outcome = "(error + 'a) option"

section \<open>Float arithmetic\<close>

text \<open>
  The operations on floats that the controller uses, each with the rounding
  of the Python runtime: \<^verbatim>\<open>a - b\<close>, \<^verbatim>\<open>a * b\<close>, \<^verbatim>\<open>a / b\<close>, \<^verbatim>\<open>math.hypot(a, b)\<close>
  and the conversion of an integer operand to a float. The controller is
  defined for any such operations; nothing is assumed of them unless a
  theorem says so.
\<close>

record float_ops =
  fp_sub :: "real \<Rightarrow> real \<Rightarrow> real"
  fp_mul :: "real \<Rightarrow> real \<Rightarrow> real"
  fp_div :: "real \<Rightarrow> real \<Rightarrow> real"
  fp_hypot :: "real \<Rightarrow> real \<Rightarrow> real"
  fp_of_int :: "int \<Rightarrow> real"

text \<open>
  \<^verbatim>\<open>math.pi\<close> is the double \<open>0x400921FB54442D18\<close>, that is
  \<open>884279719003555 / 2 ^ 48\<close>.
\<close>

definition math_pi :: real where
  "math_pi = 884279719003555 / 281474976710656"

text \<open>
  The float literals of the default parameters: \<^verbatim>\<open>0.01\<close> is the double
  \<open>5764607523034235 / 2 ^ 59\<close> and \<^verbatim>\<open>0.3\<close> is \<open>5404319552844595 / 2 ^ 54\<close>;
  \<^verbatim>\<open>1.0\<close> and \<^verbatim>\<open>0.5\<close> are exact.
\<close>

definition float_0_01 :: real where
  "float_0_01 = 5764607523034235 / 576460752303423488"

definition float_0_3 :: real where
  "float_0_3 = 5404319552844595 / 18014398509481984"

section \<open>Operations\<close>

text \<open>\<^verbatim>\<open>rospy.get_param(name, default)\<close>.\<close>

definition get_param :: "'a option \<Rightarrow> 'a \<Rightarrow> 'a" where
  "get_param v d = (case v of None \<Rightarrow> d | Some a \<Rightarrow> a)"

text \<open>
  \<^verbatim>\<open>__init__\<close>: reads the five parameters and starts with no reference pose
  and a turn count of zero. Nothing is checked and nothing is raised.
\<close>

definition init :: "RosParams \<Rightarrow> TurtlesimController" where
  "init ps =
     \<lparr> param = \<lparr> num_of_sides = get_param (ros_num_of_sides ps) 3,
                 length_of_side = get_param (ros_length_of_side ps) 1,
                 turn_direction_th = get_param (ros_turn_direction_th ps) float_0_01 \<rparr>,
       turtle = \<lparr> pose = None,
                  velocity = get_param (ros_velocity ps) (1 / 2),
                  yawrate = get_param (ros_yawrate ps) float_0_3 \<rparr>,
       prev_turn_pose = None,
       turn_count = 0 \<rparr>"

text \<open>\<^verbatim>\<open>Twist()\<close>: every component is zero.\<close>

definition Twist_default :: Twist where
  "Twist_default =
     \<lparr> linear_x = 0, linear_y = 0, linear_z = 0,
       angular_x = 0, angular_y = 0, angular_z = 0 \<rparr>"

definition can_move :: "TurtlesimController \<Rightarrow> bool" where
  "can_move s \<longleftrightarrow> turn_count s < num_of_sides (param s)"

text \<open>\<^verbatim>\<open>math.hypot(pose1.x - pose2.x, pose1.y - pose2.y)\<close>.\<close>

definition calc_distance :: "float_ops \<Rightarrow> Pose \<Rightarrow> Pose \<Rightarrow> real" where
  "calc_distance fp pose1 pose2 =
     fp_hypot fp (fp_sub fp (x pose1) (x pose2)) (fp_sub fp (y pose1) (y pose2))"

definition get_cmd_vel_to_go_straight :: "TurtlesimController \<Rightarrow> Twist" where
  "get_cmd_vel_to_go_straight s = Twist_default\<lparr>linear_x := velocity (turtle s)\<rparr>"

definition get_cmd_vel_to_turn_in_place :: "TurtlesimController \<Rightarrow> Twist" where
  "get_cmd_vel_to_turn_in_place s = Twist_default\<lparr>angular_z := yawrate (turtle s)\<rparr>"

text \<open>
  The loop of \<^verbatim>\<open>_calc_target_direction\<close>:
  \<^verbatim>\<open>while math.pi < target_direction: target_direction -= 2.0 * math.pi\<close>.
  It is a partial function: that it returns is a theorem below, under the
  stated properties of the float operations.
\<close>

partial_function (option) wrap_loop :: "float_ops \<Rightarrow> real \<Rightarrow> real option" where
  "wrap_loop fp target_direction =
     (if math_pi < target_direction
      then wrap_loop fp (fp_sub fp target_direction (fp_mul fp 2 math_pi))
      else Some target_direction)"

text \<open>
  \<^verbatim>\<open>_calc_target_direction(pose, turn_count)\<close>: neither argument is read, the
  method uses \<^verbatim>\<open>self._turn_count\<close>. The integer operands are converted to
  floats; dividing by a float that is zero raises \<^verbatim>\<open>ZeroDivisionError\<close>.
\<close>

definition calc_target_direction ::
    "float_ops \<Rightarrow> TurtlesimController \<Rightarrow> Pose option \<Rightarrow> int \<Rightarrow> real outcome" where
  "calc_target_direction fp s pose_arg turn_count_arg =
     (if fp_of_int fp (num_of_sides (param s)) = 0 then Some (Inl ZeroDivisionError)
      else let target_direction_base =
                 fp_div fp (fp_mul fp 2 math_pi) (fp_of_int fp (num_of_sides (param s)))
           in map_option Inr
                (wrap_loop fp (fp_mul fp target_direction_base
                                 (fp_of_int fp (turn_count s + 1)))))"

text \<open>
  \<^verbatim>\<open>_can_turn\<close>: the target direction is computed first, then
  \<^verbatim>\<open>self._turtle.pose.theta\<close> is read, which raises when the pose is \<^verbatim>\<open>None\<close>.
\<close>

definition can_turn :: "float_ops \<Rightarrow> TurtlesimController \<Rightarrow> bool outcome" where
  "can_turn fp s =
     (case calc_target_direction fp s (pose (turtle s)) (turn_count s) of
        None \<Rightarrow> None
      | Some (Inl e) \<Rightarrow> Some (Inl e)
      | Some (Inr target_direction) \<Rightarrow>
          (case pose (turtle s) of
             None \<Rightarrow> Some (Inl AttributeError)
           | Some p \<Rightarrow>
               Some (Inr (turn_direction_th (param s) < \<bar>fp_sub fp target_direction (theta p)\<bar>
                          \<and> turn_count s < num_of_sides (param s) - 1))))"

text \<open>
  \<^verbatim>\<open>_set_cmd_vel\<close>. The result is the list of the messages published on
  \<^verbatim>\<open>/turtle1/cmd_vel\<close> by the call, with the controller after it. The log
  calls are left out: they change nothing, and the one of the turn branch
  repeats the call of \<^verbatim>\<open>_calc_target_direction\<close> that \<^verbatim>\<open>_can_turn\<close> has just
  made on the same state.
\<close>

definition set_cmd_vel ::
    "float_ops \<Rightarrow> TurtlesimController \<Rightarrow> (Twist list \<times> TurtlesimController) outcome" where
  "set_cmd_vel fp s =
     (if \<not> can_move s then Some (Inr ([Twist_default], s))
      else
        let s1 = (if prev_turn_pose s = None then s\<lparr>prev_turn_pose := pose (turtle s)\<rparr> else s)
        in case prev_turn_pose s1 of
             None \<Rightarrow> Some (Inl AttributeError)
           | Some pose1 \<Rightarrow>
              (case pose (turtle s1) of
                 None \<Rightarrow> Some (Inl AttributeError)
               | Some pose2 \<Rightarrow>
                   let distance = calc_distance fp pose1 pose2
                   in if distance < length_of_side (param s1)
                      then Some (Inr ([get_cmd_vel_to_go_straight s1], s1))
                      else (case can_turn fp s1 of
                              None \<Rightarrow> None
                            | Some (Inl e) \<Rightarrow> Some (Inl e)
                            | Some (Inr b) \<Rightarrow>
                                if b then Some (Inr ([get_cmd_vel_to_turn_in_place s1], s1))
                                else Some (Inr ([Twist_default],
                                       s1\<lparr>turn_count := turn_count s1 + 1,
                                           prev_turn_pose := None\<rparr>)))))"

definition pose_callback ::
    "float_ops \<Rightarrow> Pose \<Rightarrow> TurtlesimController
       \<Rightarrow> (Twist list \<times> TurtlesimController) outcome" where
  "pose_callback fp msg s = set_cmd_vel fp (s\<lparr>turtle := (turtle s)\<lparr>pose := Some msg\<rparr>\<rparr>)"

text \<open>
  \<^verbatim>\<open>process\<close>: \<^verbatim>\<open>rospy.spin()\<close> hands the received poses to the callback one
  after the other. The run stops at the first call that raises or does not
  return.
\<close>

fun process ::
    "float_ops \<Rightarrow> TurtlesimController \<Rightarrow> Pose list
       \<Rightarrow> (Twist list \<times> TurtlesimController) outcome" where
  "process fp s [] = Some (Inr ([], s))"
| "process fp s (msg # msgs) =
     (case pose_callback fp msg s of
        None \<Rightarrow> None
      | Some (Inl e) \<Rightarrow> Some (Inl e)
      | Some (Inr (out, s')) \<Rightarrow>
          (case process fp s' msgs of
             None \<Rightarrow> None
           | Some (Inl e) \<Rightarrow> Some (Inl e)
           | Some (Inr (outs, s'')) \<Rightarrow> Some (Inr (out @ outs, s''))))"

section \<open>Properties of the float operations\<close>

text \<open>
  The unit roundoff of a double, a bound within the range of the doubles, and
  half of the least positive double.
\<close>

definition unit_roundoff :: real where
  "unit_roundoff = 1 / 2 ^ 53"

definition max_range :: real where
  "max_range = 2 ^ 1023"

definition half_least_double :: real where
  "half_least_double = 1 / 2 ^ 1075"

text \<open>
  What the theorems on the normalisation loop use of the arithmetic. Each
  line holds of IEEE 754 binary64 with rounding to nearest, on doubles:
  \<^item> a difference within the range has a relative error of at most the unit
    roundoff (a difference too small for that is a multiple of the least
    double, and exact);
  \<^item> a difference \<open>a - b\<close> with \<open>b / 2 \<le> a \<le> 2 * b\<close> is exact;
  \<^item> doubling is exact within the range;
  \<^item> a product or quotient of operands that are not negative is not negative,
    at most twice the exact value, and above it by at most the relative error
    of the unit roundoff plus half of the least double;
  \<^item> \<^verbatim>\<open>math.hypot(0.0, 0.0)\<close> is zero.
  The operations may be continued in any way to reals that are not doubles,
  say by the exact operations.
\<close>

definition round_to_nearest :: "float_ops \<Rightarrow> bool" where
  "round_to_nearest fp \<longleftrightarrow>
     (\<forall>a b. \<bar>a - b\<bar> \<le> max_range \<longrightarrow>
        \<bar>fp_sub fp a b - (a - b)\<bar> \<le> \<bar>a - b\<bar> * unit_roundoff)
   \<and> (\<forall>a b. b / 2 \<le> a \<and> a \<le> 2 * b \<longrightarrow> fp_sub fp a b = a - b)
   \<and> (\<forall>a. \<bar>a\<bar> \<le> max_range / 2 \<longrightarrow> fp_mul fp 2 a = 2 * a)
   \<and> (\<forall>a b. 0 \<le> a \<and> 0 \<le> b \<and> a * b \<le> max_range \<longrightarrow>
        0 \<le> fp_mul fp a b \<and> fp_mul fp a b \<le> 2 * (a * b)
        \<and> fp_mul fp a b \<le> a * b + a * b * unit_roundoff + half_least_double)
   \<and> (\<forall>a b. 0 \<le> a \<and> 0 < b \<and> a / b \<le> max_range \<longrightarrow>
        0 \<le> fp_div fp a b \<and> fp_div fp a b \<le> 2 * (a / b)
        \<and> fp_div fp a b \<le> a / b + a / b * unit_roundoff + half_least_double)
   \<and> fp_hypot fp 0 0 = 0"

text \<open>The integers from one to \<open>n\<close> are converted to floats exactly.\<close>

definition exact_up_to :: "float_ops \<Rightarrow> int \<Rightarrow> bool" where
  "exact_up_to fp n \<longleftrightarrow> (\<forall>k. 1 \<le> k \<and> k \<le> n \<longrightarrow> fp_of_int fp k = real_of_int k)"

section \<open>Example inputs\<close>

text \<open>
  The operations without rounding. On values where the float operations are
  exact they are the float operations.
\<close>

definition exact_ops :: float_ops where
  "exact_ops =
     \<lparr> fp_sub = (\<lambda>a b. a - b), fp_mul = (\<lambda>a b. a * b), fp_div = (\<lambda>a b. a / b),
       fp_hypot = (\<lambda>a b. sqrt (a\<^sup>2 + b\<^sup>2)), fp_of_int = real_of_int \<rparr>"

text \<open>No parameter is set: the node runs on its defaults, a triangle of side 1.\<close>

definition no_params :: RosParams where
  "no_params = \<lparr> ros_num_of_sides = None, ros_length_of_side = None,
       ros_turn_direction_th = None, ros_velocity = None, ros_yawrate = None \<rparr>"

definition origin :: Pose where
  "origin = \<lparr> x = 0, y = 0, theta = 0 \<rparr>"

section \<open>Facts about the constants\<close>

lemma math_pi_bounds: "3 < math_pi" "math_pi < 4"
  by (simp_all add: math_pi_def)

text \<open>
  \<^verbatim>\<open>math.pi\<close> is below \<open>\<pi>\<close>: by Machin's formula and the alternating series of
  the arc tangent, twelve terms at \<open>1 / 5\<close> and three at \<open>1 / 239\<close>.
\<close>

lemma arctan_partial_sums:
  assumes "0 < t" and "t \<le> 1"
  shows "(\<Sum>i<2 * n. (- 1) ^ i * (1 / real (i * 2 + 1) * t ^ (i * 2 + 1))) \<le> arctan t"
    and "arctan t \<le> (\<Sum>i<2 * n + 1. (- 1) ^ i * (1 / real (i * 2 + 1) * t ^ (i * 2 + 1)))"
proof -
  have abs: "\<bar>t\<bar> \<le> 1" using assms by simp
  let ?a = "\<lambda>n. 1 / real (n * 2 + 1) * t ^ (n * 2 + 1)"
  have "0 < ?a 0" using assms by simp
  with summable_Leibniz(2)[OF zeroseq_arctan_series[OF abs] monoseq_arctan_series[OF abs]]
  have "(\<Sum>i. (- 1) ^ i * ?a i) \<in> {\<Sum>i<2 * n. (- 1) ^ i * ?a i .. \<Sum>i<2 * n + 1. (- 1) ^ i * ?a i}"
    by blast
  then show
    "(\<Sum>i<2 * n. (- 1) ^ i * (1 / real (i * 2 + 1) * t ^ (i * 2 + 1))) \<le> arctan t"
    "arctan t \<le> (\<Sum>i<2 * n + 1. (- 1) ^ i * (1 / real (i * 2 + 1) * t ^ (i * 2 + 1)))"
    unfolding arctan_series[OF abs] by simp_all
qed

lemma math_pi_less_pi: "math_pi < pi"
proof -
  have lo: "(\<Sum>i<2 * 6. (- 1) ^ i * (1 / real (i * 2 + 1) * (1 / 5) ^ (i * 2 + 1)))
              \<le> arctan (1 / 5)"
    by (rule arctan_partial_sums(1)) simp_all
  have hi: "arctan (1 / 239)
              \<le> (\<Sum>i<2 * 1 + 1. (- 1) ^ i * (1 / real (i * 2 + 1) * (1 / 239) ^ (i * 2 + 1)))"
    by (rule arctan_partial_sums(2)) simp_all
  have "pi = 16 * arctan (1 / 5) - 4 * arctan (1 / 239)" using machin by simp
  moreover have "math_pi
      < 16 * (\<Sum>i<2 * 6. (- 1) ^ i * (1 / real (i * 2 + 1) * (1 / 5) ^ (i * 2 + 1)))
        - 4 * (\<Sum>i<2 * 1 + 1. (- 1) ^ i * (1 / real (i * 2 + 1) * (1 / 239) ^ (i * 2 + 1)))"
    by (simp add: math_pi_def eval_nat_numeral)
  ultimately show ?thesis using lo hi by linarith
qed

lemma unit_roundoff_bounds: "0 < unit_roundoff" "unit_roundoff \<le> 1 / 8"
  by (simp_all add: unit_roundoff_def)

lemma max_range_large: "64 \<le> max_range"
proof -
  have "(2::real) ^ 6 \<le> 2 ^ 1023" by (rule power_increasing) simp_all
  then show ?thesis by (simp add: max_range_def)
qed

lemma half_least_double_small:
  "0 < half_least_double" "half_least_double * 2 ^ 53 \<le> 1 / 64"
proof -
  show "0 < half_least_double" by (simp add: half_least_double_def)
  have "(2::real) ^ 59 \<le> 2 ^ 1075" by (rule power_increasing) simp_all
  then have "(2::real) ^ 53 * 64 \<le> 2 ^ 1075" by simp
  then show "half_least_double * 2 ^ 53 \<le> 1 / 64"
    unfolding half_least_double_def by (simp add: field_simps)
qed

section \<open>Consequences of rounding to nearest\<close>

lemma rn_sub_error:
  assumes "round_to_nearest fp" and "\<bar>a - b\<bar> \<le> max_range"
  shows "\<bar>fp_sub fp a b - (a - b)\<bar> \<le> \<bar>a - b\<bar> * unit_roundoff"
  using assms unfolding round_to_nearest_def by blast

lemma rn_sub_exact:
  assumes "round_to_nearest fp" and "b / 2 \<le> a" and "a \<le> 2 * b"
  shows "fp_sub fp a b = a - b"
  using assms unfolding round_to_nearest_def by blast

lemma rn_sub_self:
  assumes "round_to_nearest fp"
  shows "fp_sub fp a a = 0"
proof -
  have "\<bar>a - a\<bar> \<le> max_range" using max_range_large by simp
  from rn_sub_error[OF assms this] show ?thesis by simp
qed

lemma rn_double:
  assumes "round_to_nearest fp" and "\<bar>a\<bar> \<le> max_range / 2"
  shows "fp_mul fp 2 a = 2 * a"
  using assms unfolding round_to_nearest_def by blast

lemma rn_mul:
  assumes "round_to_nearest fp" and "0 \<le> a" and "0 \<le> b" and "a * b \<le> max_range"
  shows "0 \<le> fp_mul fp a b" and "fp_mul fp a b \<le> 2 * (a * b)"
    and "fp_mul fp a b \<le> a * b + a * b * unit_roundoff + half_least_double"
  using assms unfolding round_to_nearest_def by blast+

lemma rn_div:
  assumes "round_to_nearest fp" and "0 \<le> a" and "0 < b" and "a / b \<le> max_range"
  shows "0 \<le> fp_div fp a b" and "fp_div fp a b \<le> 2 * (a / b)"
    and "fp_div fp a b \<le> a / b + a / b * unit_roundoff + half_least_double"
  using assms unfolding round_to_nearest_def by blast+

lemma rn_hypot_zero:
  assumes "round_to_nearest fp"
  shows "fp_hypot fp 0 0 = 0"
  using assms unfolding round_to_nearest_def by blast

lemma rn_two_pi:
  assumes "round_to_nearest fp"
  shows "fp_mul fp 2 math_pi = 2 * math_pi"
proof (rule rn_double[OF assms])
  from math_pi_bounds max_range_large show "\<bar>math_pi\<bar> \<le> max_range / 2" by simp
qed

text \<open>The exact operations have every property asked of the float operations.\<close>

lemma exact_ops_round_to_nearest: "round_to_nearest exact_ops"
proof -
  have u: "0 \<le> unit_roundoff" using unit_roundoff_bounds by simp
  have h: "0 \<le> half_least_double" using half_least_double_small by simp
  have pos: "0 \<le> r * unit_roundoff + half_least_double" if "0 \<le> r" for r :: real
    using that u h by simp
  have mul: "0 \<le> a * b \<and> a * b \<le> 2 * (a * b)
      \<and> a * b \<le> a * b + a * b * unit_roundoff + half_least_double"
    if "0 \<le> a" "0 \<le> b" for a b :: real
  proof -
    from that have "0 \<le> a * b" by simp
    with pos[OF this] show ?thesis by simp
  qed
  have dv: "0 \<le> a / b \<and> a / b \<le> 2 * (a / b)
      \<and> a / b \<le> a / b + a / b * unit_roundoff + half_least_double"
    if "0 \<le> a" "0 < b" for a b :: real
  proof -
    from that have "0 \<le> a / b" by simp
    with pos[OF this] show ?thesis by simp
  qed
  show ?thesis
    unfolding round_to_nearest_def exact_ops_def using u mul dv by simp
qed

lemma exact_ops_exact_up_to: "exact_up_to exact_ops n"
  by (simp add: exact_up_to_def exact_ops_def)

section \<open>The normalisation loop returns\<close>

lemma wrap_loop_stop: "\<not> math_pi < t \<Longrightarrow> wrap_loop fp t = Some t"
  by (subst wrap_loop.simps) simp

lemma wrap_loop_step:
  "math_pi < t \<Longrightarrow> wrap_loop fp t = wrap_loop fp (fp_sub fp t (fp_mul fp 2 math_pi))"
  by (subst wrap_loop.simps) simp

text \<open>
  One round of the loop on a value above \<^verbatim>\<open>math.pi\<close> and at most eight times
  \<^verbatim>\<open>math.pi\<close> takes away at least \<^verbatim>\<open>math.pi\<close>.
\<close>

lemma wrap_round_descends:
  assumes rn: "round_to_nearest fp" and above: "math_pi < t" and below: "t \<le> 8 * math_pi"
  shows "fp_sub fp t (fp_mul fp 2 math_pi) \<le> t - math_pi"
proof -
  let ?d = "t - 2 * math_pi"
  have d: "\<bar>?d\<bar> \<le> 6 * math_pi" using above below math_pi_bounds by (simp add: abs_if)
  then have "\<bar>?d\<bar> \<le> max_range" using math_pi_bounds max_range_large by linarith
  from rn_sub_error[OF rn this]
  have "fp_sub fp t (2 * math_pi) \<le> ?d + \<bar>?d\<bar> * unit_roundoff" by linarith
  also have "\<bar>?d\<bar> * unit_roundoff \<le> 6 * math_pi * (1 / 8)"
    using d unit_roundoff_bounds by (intro mult_mono) simp_all
  finally have "fp_sub fp t (2 * math_pi) \<le> t - math_pi"
    using math_pi_bounds by simp
  then show ?thesis by (simp add: rn_two_pi[OF rn])
qed

lemma wrap_loop_descends:
  assumes rn: "round_to_nearest fp"
  shows "t \<le> math_pi + real j * math_pi \<Longrightarrow> t \<le> 8 * math_pi
           \<Longrightarrow> \<exists>r. wrap_loop fp t = Some r \<and> r \<le> math_pi"
proof (induction j arbitrary: t)
  case 0
  then have "\<not> math_pi < t" by simp
  with wrap_loop_stop[OF this, of fp] show ?case by simp
next
  case (Suc j)
  show ?case
  proof (cases "math_pi < t")
    case False
    with wrap_loop_stop[OF this, of fp] show ?thesis by simp
  next
    case True
    let ?t' = "fp_sub fp t (fp_mul fp 2 math_pi)"
    have down: "?t' \<le> t - math_pi" by (rule wrap_round_descends[OF rn True Suc.prems(2)])
    have "?t' \<le> math_pi + real j * math_pi"
      using down Suc.prems(1) by (simp add: algebra_simps)
    moreover have "?t' \<le> 8 * math_pi" using down Suc.prems(2) math_pi_bounds by linarith
    ultimately obtain r where "wrap_loop fp ?t' = Some r" "r \<le> math_pi"
      using Suc.IH by blast
    then show ?thesis by (simp add: wrap_loop_step[OF True])
  qed
qed

lemma wrap_loop_returns:
  assumes "round_to_nearest fp" and "t \<le> 8 * math_pi"
  shows "\<exists>r. wrap_loop fp t = Some r \<and> r \<le> math_pi"
proof (rule wrap_loop_descends[OF assms(1), of t 7])
  show "t \<le> math_pi + real 7 * math_pi" using assms(2) by simp
  show "t \<le> 8 * math_pi" by (rule assms(2))
qed

section \<open>The float product that enters the loop\<close>

text \<open>
  With the integers converted exactly and \<open>1 \<le> m \<le> n\<close>, the product
  \<^verbatim>\<open>2.0 * math.pi / n * m\<close> is not negative and at most eight times \<^verbatim>\<open>math.pi\<close>;
  for \<open>n\<close> up to \<open>2 ^ 53\<close> it is at most three times \<^verbatim>\<open>math.pi\<close>.
\<close>

lemma target_product_crude:
  assumes rn: "round_to_nearest fp"
    and n: "fp_of_int fp n = real_of_int n" and m: "fp_of_int fp m = real_of_int m"
    and range: "1 \<le> m" "m \<le> n"
  shows "0 \<le> fp_mul fp (fp_div fp (fp_mul fp 2 math_pi) (fp_of_int fp n)) (fp_of_int fp m)"
    and "fp_mul fp (fp_div fp (fp_mul fp 2 math_pi) (fp_of_int fp n)) (fp_of_int fp m)
           \<le> 8 * math_pi"
proof -
  define N where "N = real_of_int n"
  define M where "M = real_of_int m"
  define base where "base = fp_div fp (2 * math_pi) N"
  have M1: "1 \<le> M" and MN: "M \<le> N" using range by (simp_all add: M_def N_def)
  then have N0: "0 < N" by simp
  have ratio: "M / N \<le> 1" using MN N0 by simp
  have tau: "0 \<le> 2 * math_pi" using math_pi_bounds by simp
  have "2 * math_pi / N \<le> 2 * math_pi / 1"
    using M1 MN tau by (intro divide_left_mono) simp_all
  then have r1: "2 * math_pi / N \<le> max_range"
    using math_pi_bounds max_range_large by simp
  note d = rn_div[OF rn tau N0 r1]
  have base0: "0 \<le> base" using d(1) by (simp add: base_def)
  have base2: "base \<le> 2 * (2 * math_pi / N)" using d(2) by (simp add: base_def)
  have "base * M \<le> 2 * (2 * math_pi / N) * M"
    using base2 M1 by (intro mult_right_mono) simp_all
  also have "\<dots> = 4 * math_pi * (M / N)" by simp
  also have "\<dots> \<le> 4 * math_pi * 1"
    using ratio tau by (intro mult_left_mono) simp_all
  finally have r2: "base * M \<le> 4 * math_pi" by simp
  then have r2': "base * M \<le> max_range" using math_pi_bounds max_range_large by linarith
  have M0: "0 \<le> M" using M1 by simp
  note p = rn_mul[OF rn base0 M0 r2']
  have "fp_mul fp base M \<le> 8 * math_pi" using p(2) r2 by linarith
  with p(1) show
    "0 \<le> fp_mul fp (fp_div fp (fp_mul fp 2 math_pi) (fp_of_int fp n)) (fp_of_int fp m)"
    "fp_mul fp (fp_div fp (fp_mul fp 2 math_pi) (fp_of_int fp n)) (fp_of_int fp m)
           \<le> 8 * math_pi"
    by (simp_all add: rn_two_pi[OF rn] n m base_def N_def M_def)
qed

lemma target_product_tight:
  assumes rn: "round_to_nearest fp"
    and n: "fp_of_int fp n = real_of_int n" and m: "fp_of_int fp m = real_of_int m"
    and range: "1 \<le> m" "m \<le> n" "n \<le> 2 ^ 53"
  shows "fp_mul fp (fp_div fp (fp_mul fp 2 math_pi) (fp_of_int fp n)) (fp_of_int fp m)
           \<le> 3 * math_pi"
proof -
  define N where "N = real_of_int n"
  define M where "M = real_of_int m"
  define base where "base = fp_div fp (2 * math_pi) N"
  define u where "u = unit_roundoff"
  define h where "h = half_least_double"
  have M1: "1 \<le> M" and MN: "M \<le> N" using range by (simp_all add: M_def N_def)
  have "real_of_int n \<le> real_of_int (2 ^ 53)" using range(3) by (simp only: of_int_le_iff)
  then have Nmax: "N \<le> 2 ^ 53" by (simp add: N_def)
  have N0: "0 < N" using M1 MN by simp
  have M0: "0 \<le> M" using M1 by simp
  have ratio: "M / N \<le> 1" using MN N0 by simp
  have ratio0: "0 \<le> M / N" using M0 N0 by simp
  have u: "0 \<le> u" "u \<le> 1 / 8" using unit_roundoff_bounds by (simp_all add: u_def)
  have h: "0 \<le> h" "h * 2 ^ 53 \<le> 1 / 64" using half_least_double_small by (simp_all add: h_def)
  have hM: "h * M \<le> 1 / 64"
  proof -
    have "h * M \<le> h * 2 ^ 53" using h(1) MN Nmax by (intro mult_left_mono) simp_all
    with h(2) show ?thesis by linarith
  qed
  have h1: "h \<le> 1 / 64"
  proof -
    have "h * 1 \<le> h * M" using h(1) M1 by (intro mult_left_mono) simp_all
    with hM show ?thesis by simp
  qed
  have tau: "0 \<le> 2 * math_pi" using math_pi_bounds by simp
  have "2 * math_pi / N \<le> 2 * math_pi / 1"
    using M1 MN tau by (intro divide_left_mono) simp_all
  then have r1: "2 * math_pi / N \<le> max_range"
    using math_pi_bounds max_range_large by simp
  note d = rn_div[OF rn tau N0 r1]
  have base0: "0 \<le> base" using d(1) by (simp add: base_def)
  have "base \<le> 2 * math_pi / N + 2 * math_pi / N * u + h"
    using d(3) by (simp add: base_def u_def h_def)
  then have "base * M \<le> (2 * math_pi / N + 2 * math_pi / N * u + h) * M"
    using M0 by (intro mult_right_mono) simp_all
  also have "\<dots> = 2 * math_pi * (1 + u) * (M / N) + h * M"
    by (simp add: algebra_simps)
  also have "\<dots> \<le> 2 * math_pi * (1 + u) * 1 + 1 / 64"
  proof -
    have "2 * math_pi * (1 + u) * (M / N) \<le> 2 * math_pi * (1 + u) * 1"
      using ratio tau u(1) by (intro mult_left_mono) simp_all
    with hM show ?thesis by linarith
  qed
  also have "\<dots> \<le> 2 * math_pi * (9 / 8) + 1 / 64"
  proof -
    have "2 * math_pi * (1 + u) \<le> 2 * math_pi * (9 / 8)"
      using u(2) tau by (intro mult_left_mono) simp_all
    then show ?thesis by simp
  qed
  finally have r2: "base * M \<le> 9 / 4 * math_pi + 1 / 64" by simp
  then have r2': "base * M \<le> max_range" using math_pi_bounds max_range_large by linarith
  have r20: "0 \<le> base * M" using base0 M0 by simp
  note p = rn_mul[OF rn base0 M0 r2']
  have "fp_mul fp base M \<le> base * M + base * M * u + h"
    using p(3) by (simp add: u_def h_def)
  also have "\<dots> \<le> base * M + base * M * (1 / 8) + 1 / 64"
  proof -
    have "base * M * u \<le> base * M * (1 / 8)"
      using u(2) r20 by (intro mult_left_mono) simp_all
    with h1 show ?thesis by linarith
  qed
  also have "\<dots> = base * M * (9 / 8) + 1 / 64" by simp
  also have "\<dots> \<le> (9 / 4 * math_pi + 1 / 64) * (9 / 8) + 1 / 64"
  proof -
    have "base * M * (9 / 8) \<le> (9 / 4 * math_pi + 1 / 64) * (9 / 8)"
      using r2 by (intro mult_right_mono) simp_all
    then show ?thesis by linarith
  qed
  also have "\<dots> = 81 / 32 * math_pi + 17 / 512" by (simp add: algebra_simps)
  also have "\<dots> \<le> 3 * math_pi" using math_pi_bounds by linarith
  finally show ?thesis
    by (simp add: rn_two_pi[OF rn] n m base_def N_def M_def)
qed

section \<open>Facts about the single operations\<close>

lemma exact_ops_simps:
  "fp_sub exact_ops a b = a - b"
  "fp_mul exact_ops a b = a * b"
  "fp_div exact_ops a b = a / b"
  "fp_hypot exact_ops a b = sqrt (a\<^sup>2 + b\<^sup>2)"
  "fp_of_int exact_ops k = real_of_int k"
  by (simp_all add: exact_ops_def)

lemma init_no_params:
  "init no_params =
     \<lparr> param = \<lparr> num_of_sides = 3, length_of_side = 1, turn_direction_th = float_0_01 \<rparr>,
       turtle = \<lparr> pose = None, velocity = 1 / 2, yawrate = float_0_3 \<rparr>,
       prev_turn_pose = None, turn_count = 0 \<rparr>"
  by (simp add: init_def no_params_def get_param_def)

lemma calc_target_direction_state:
  assumes "turn_count s1 = turn_count s2"
    and "num_of_sides (param s1) = num_of_sides (param s2)"
  shows "calc_target_direction fp s1 p1 t1 = calc_target_direction fp s2 p2 t2"
  by (simp add: calc_target_direction_def assms)

lemma calc_target_direction_returns:
  assumes rn: "round_to_nearest fp"
    and ex: "exact_up_to fp (num_of_sides (param s))"
    and tc: "0 \<le> turn_count s" "turn_count s < num_of_sides (param s)"
  shows "\<exists>td. calc_target_direction fp s p t = Some (Inr td)"
proof -
  let ?n = "num_of_sides (param s)" and ?m = "turn_count s + 1"
  have n: "fp_of_int fp ?n = real_of_int ?n" and m: "fp_of_int fp ?m = real_of_int ?m"
    using ex tc unfolding exact_up_to_def by simp_all
  have range: "1 \<le> ?m" "?m \<le> ?n" using tc by simp_all
  from target_product_crude(2)[OF rn n m range] wrap_loop_returns[OF rn]
  obtain r where
    "wrap_loop fp (fp_mul fp (fp_div fp (fp_mul fp 2 math_pi) (fp_of_int fp ?n))
       (fp_of_int fp ?m)) = Some r"
    by blast
  moreover have "fp_of_int fp ?n \<noteq> 0" using n tc by simp
  ultimately show ?thesis by (simp add: calc_target_direction_def)
qed

lemma can_turn_returns:
  assumes "round_to_nearest fp" and "exact_up_to fp (num_of_sides (param s))"
    and "0 \<le> turn_count s" and "turn_count s < num_of_sides (param s)"
    and "pose (turtle s) = Some msg"
  shows "\<exists>b. can_turn fp s = Some (Inr b)"
proof -
  obtain td where "calc_target_direction fp s (pose (turtle s)) (turn_count s) = Some (Inr td)"
    using calc_target_direction_returns[OF assms(1-4)] by blast
  with assms(5) show ?thesis by (simp add: can_turn_def)
qed

lemma can_turn_last_corner:
  assumes "round_to_nearest fp" and "exact_up_to fp (num_of_sides (param s))"
    and "0 \<le> turn_count s" and "turn_count s = num_of_sides (param s) - 1"
    and "pose (turtle s) = Some msg"
  shows "can_turn fp s = Some (Inr False)"
proof -
  have "turn_count s < num_of_sides (param s)" using assms(4) by simp
  from calc_target_direction_returns[OF assms(1-3) this]
  obtain td where "calc_target_direction fp s (pose (turtle s)) (turn_count s) = Some (Inr td)"
    by blast
  with assms(4,5) show ?thesis by (simp add: can_turn_def)
qed

lemma pose_callback_terminal:
  assumes "num_of_sides (param s) \<le> turn_count s"
  shows "pose_callback fp msg s =
           Some (Inr ([Twist_default], s\<lparr>turtle := (turtle s)\<lparr>pose := Some msg\<rparr>\<rparr>))"
  using assms by (simp add: pose_callback_def set_cmd_vel_def can_move_def)

lemma process_terminal:
  assumes "num_of_sides (param s) \<le> turn_count s"
  shows "process fp s (msg # msgs) =
           Some (Inr (replicate (Suc (length msgs)) Twist_default,
                      s\<lparr>turtle := (turtle s)\<lparr>pose := Some (last (msg # msgs))\<rparr>\<rparr>))"
  using assms
proof (induction msgs arbitrary: s msg)
  case Nil
  then show ?case by (simp add: pose_callback_terminal)
next
  case (Cons m ms)
  let ?s' = "s\<lparr>turtle := (turtle s)\<lparr>pose := Some msg\<rparr>\<rparr>"
  have "num_of_sides (param ?s') \<le> turn_count ?s'" using Cons.prems by simp
  from Cons.IH[OF this, of m] Cons.prems show ?case
    by (simp add: pose_callback_terminal)
qed

text \<open>The corner branch of \<^verbatim>\<open>_set_cmd_vel\<close>, once \<^verbatim>\<open>_can_turn\<close> has returned.\<close>

lemma set_cmd_vel_corner:
  assumes "turn_count s < num_of_sides (param s)"
    and "prev_turn_pose s = Some r" and "pose (turtle s) = Some msg"
    and "\<not> calc_distance fp r msg < length_of_side (param s)"
    and "can_turn fp s = Some (Inr b)"
  shows "set_cmd_vel fp s =
           (if b then Some (Inr ([get_cmd_vel_to_turn_in_place s], s))
            else Some (Inr ([Twist_default],
                   s\<lparr>turn_count := turn_count s + 1, prev_turn_pose := None\<rparr>)))"
  using assms by (simp add: set_cmd_vel_def can_move_def)

text \<open>A pose update with no reference pose behaves as one whose reference is the stored pose.\<close>

lemma set_cmd_vel_recapture:
  assumes "prev_turn_pose s = None" and "pose (turtle s) = Some m"
    and "turn_count s < num_of_sides (param s)"
  shows "set_cmd_vel fp s = set_cmd_vel fp (s\<lparr>prev_turn_pose := Some m\<rparr>)"
  using assms by (simp add: set_cmd_vel_def can_move_def)

lemma calc_distance_same:
  assumes "round_to_nearest fp"
  shows "calc_distance fp p p = 0"
  by (simp add: calc_distance_def rn_sub_self[OF assms] rn_hypot_zero[OF assms])

section \<open>Every pose update returns\<close>

text \<open>
  With float operations that round to nearest, the integers up to the number
  of sides converted exactly and a turn count that is not negative, the
  callback returns, publishes one message of one of the three shapes, and
  keeps the turn count or adds one to it.
\<close>

lemma pose_callback_step:
  assumes rn: "round_to_nearest fp"
    and ex: "exact_up_to fp (num_of_sides (param s))"
    and nonneg: "0 \<le> turn_count s"
  shows "\<exists>cmd s'. pose_callback fp msg s = Some (Inr ([cmd], s'))
           \<and> param s' = param s
           \<and> velocity (turtle s') = velocity (turtle s)
           \<and> yawrate (turtle s') = yawrate (turtle s)
           \<and> (turn_count s' = turn_count s
                \<or> turn_count s' = turn_count s + 1 \<and> turn_count s < num_of_sides (param s))
           \<and> (cmd = Twist_default
                \<or> cmd = Twist_default\<lparr>linear_x := velocity (turtle s)\<rparr>
                \<or> cmd = Twist_default\<lparr>angular_z := yawrate (turtle s)\<rparr>)"
proof (cases "turn_count s < num_of_sides (param s)")
  case False
  then have "pose_callback fp msg s =
      Some (Inr ([Twist_default], s\<lparr>turtle := (turtle s)\<lparr>pose := Some msg\<rparr>\<rparr>))"
    by (intro pose_callback_terminal) simp
  then show ?thesis by simp
next
  case True
  let ?s = "s\<lparr>turtle := (turtle s)\<lparr>pose := Some msg\<rparr>\<rparr>"
  define s1 where
    "s1 = (if prev_turn_pose ?s = None then ?s\<lparr>prev_turn_pose := pose (turtle ?s)\<rparr> else ?s)"
  have s1: "param s1 = param s" "turtle s1 = (turtle s)\<lparr>pose := Some msg\<rparr>"
    "turn_count s1 = turn_count s"
    by (simp_all add: s1_def)
  obtain r where r: "prev_turn_pose s1 = Some r"
    by (cases "prev_turn_pose s") (auto simp: s1_def)
  have "\<exists>b. can_turn fp s1 = Some (Inr b)"
    by (rule can_turn_returns[OF rn, of s1 msg]) (simp_all add: s1 ex nonneg True)
  then obtain b where b: "can_turn fp s1 = Some (Inr b)" by blast
  have "pose_callback fp msg s =
     (if calc_distance fp r msg < length_of_side (param s1)
      then Some (Inr ([get_cmd_vel_to_go_straight s1], s1))
      else if b then Some (Inr ([get_cmd_vel_to_turn_in_place s1], s1))
      else Some (Inr ([Twist_default], s1\<lparr>turn_count := turn_count s1 + 1, prev_turn_pose := None\<rparr>)))"
    using True r b s1 unfolding pose_callback_def set_cmd_vel_def s1_def[symmetric]
    by (simp add: Let_def can_move_def)
  with s1 True show ?thesis
    by (auto simp: get_cmd_vel_to_go_straight_def get_cmd_vel_to_turn_in_place_def)
qed

lemma process_invariant:
  assumes rn: "round_to_nearest fp"
  shows "exact_up_to fp (num_of_sides (param s)) \<Longrightarrow> 0 \<le> turn_count s \<Longrightarrow>
         \<exists>out s'. process fp s msgs = Some (Inr (out, s'))
           \<and> length out = length msgs
           \<and> param s' = param s
           \<and> turn_count s \<le> turn_count s'
           \<and> (turn_count s \<le> num_of_sides (param s) \<longrightarrow> turn_count s' \<le> num_of_sides (param s))"
proof (induction msgs arbitrary: s)
  case Nil
  then show ?case by simp
next
  case (Cons msg msgs)
  from pose_callback_step[OF rn Cons.prems, of msg] obtain cmd s1 where
    step: "pose_callback fp msg s = Some (Inr ([cmd], s1))" "param s1 = param s"
      "turn_count s1 = turn_count s
        \<or> turn_count s1 = turn_count s + 1 \<and> turn_count s < num_of_sides (param s)"
    by blast
  from step(3) Cons.prems(2) have nonneg: "0 \<le> turn_count s1" by auto
  from Cons.prems(1) step(2) have ex: "exact_up_to fp (num_of_sides (param s1))" by simp
  from Cons.IH[OF ex nonneg] obtain out s' where
    rest: "process fp s1 msgs = Some (Inr (out, s'))" "length out = length msgs"
      "param s' = param s1" "turn_count s1 \<le> turn_count s'"
      "turn_count s1 \<le> num_of_sides (param s1) \<longrightarrow> turn_count s' \<le> num_of_sides (param s1)"
    by blast
  have "process fp s (msg # msgs) = Some (Inr (cmd # out, s'))"
    using step(1) rest(1) by simp
  moreover from step(2,3) rest(3,4,5) have
    "turn_count s \<le> turn_count s'"
    "turn_count s \<le> num_of_sides (param s) \<longrightarrow> turn_count s' \<le> num_of_sides (param s)"
    by auto
  ultimately show ?case using rest(2,3) step(2) by simp
qed

text \<open>
  The triangle of the defaults, with the exact operations, on the poses
  \<open>(0, 0)\<close>, \<open>(0.5, 0)\<close>, \<open>(1, 0)\<close>, all with heading zero: forward, forward, then
  the turn on the spot.
\<close>

lemma triangle_scenario:
  "process exact_ops (init no_params)
     [\<lparr>x = 0, y = 0, theta = 0\<rparr>, \<lparr>x = 1 / 2, y = 0, theta = 0\<rparr>, \<lparr>x = 1, y = 0, theta = 0\<rparr>] =
   Some (Inr ([Twist_default\<lparr>linear_x := 1 / 2\<rparr>, Twist_default\<lparr>linear_x := 1 / 2\<rparr>,
               Twist_default\<lparr>angular_z := float_0_3\<rparr>],
     \<lparr> param = \<lparr> num_of_sides = 3, length_of_side = 1, turn_direction_th = float_0_01 \<rparr>,
       turtle = \<lparr> pose = Some \<lparr>x = 1, y = 0, theta = 0\<rparr>, velocity = 1 / 2,
                  yawrate = float_0_3 \<rparr>,
       prev_turn_pose = Some \<lparr>x = 0, y = 0, theta = 0\<rparr>, turn_count = 0 \<rparr>))"
proof -
  have "\<not> math_pi < 2 * math_pi / 3" using math_pi_bounds by simp
  then have "wrap_loop exact_ops (2 * math_pi / 3) = Some (2 * math_pi / 3)"
    by (rule wrap_loop_stop)
  moreover have "float_0_01 < \<bar>2 * math_pi / 3\<bar>"
    by (simp add: float_0_01_def math_pi_def)
  ultimately show ?thesis
    by (simp add: init_no_params pose_callback_def set_cmd_vel_def can_move_def calc_distance_def
        can_turn_def calc_target_direction_def exact_ops_simps
        get_cmd_vel_to_go_straight_def get_cmd_vel_to_turn_in_place_def)
qed

section \<open>The claims\<close>

text \<open>
  C1 (terminal stability). In a state whose turn count has reached the number
  of sides (or is beyond it), a pose update publishes the zero command and
  changes nothing of the controller but the stored pose; so does every later
  update of the run: a run of any length publishes zero commands only and ends
  in the same state, with the last pose stored. This holds whatever the float
  operations are.
\<close>

theorem terminal_stability:
  assumes "num_of_sides (param s) \<le> turn_count s"
  shows "pose_callback fp msg s =
           Some (Inr ([Twist_default], s\<lparr>turtle := (turtle s)\<lparr>pose := Some msg\<rparr>\<rparr>))
         \<and> process fp s (msg # msgs) =
           Some (Inr (replicate (Suc (length msgs)) Twist_default,
                      s\<lparr>turtle := (turtle s)\<lparr>pose := Some (last (msg # msgs))\<rparr>\<rparr>))"
  using assms by (simp only: pose_callback_terminal process_terminal simp_thms)

theorem terminal_stability_witness:
  "num_of_sides (param ((init no_params)\<lparr>turn_count := 3\<rparr>))
     \<le> turn_count ((init no_params)\<lparr>turn_count := 3\<rparr>)
   \<and> pose_callback exact_ops \<lparr>x = 1, y = 2, theta = 1 / 2\<rparr>
         ((init no_params)\<lparr>turn_count := 3\<rparr>) =
       Some (Inr ([Twist_default],
         \<lparr> param = \<lparr> num_of_sides = 3, length_of_side = 1, turn_direction_th = float_0_01 \<rparr>,
           turtle = \<lparr> pose = Some \<lparr>x = 1, y = 2, theta = 1 / 2\<rparr>, velocity = 1 / 2,
                      yawrate = float_0_3 \<rparr>,
           prev_turn_pose = None, turn_count = 3 \<rparr>))
   \<and> process exact_ops ((init no_params)\<lparr>turn_count := 3\<rparr>)
         [\<lparr>x = 1, y = 2, theta = 1 / 2\<rparr>, \<lparr>x = 3, y = 1, theta = 0\<rparr>] =
       Some (Inr ([Twist_default, Twist_default],
         \<lparr> param = \<lparr> num_of_sides = 3, length_of_side = 1, turn_direction_th = float_0_01 \<rparr>,
           turtle = \<lparr> pose = Some \<lparr>x = 3, y = 1, theta = 0\<rparr>, velocity = 1 / 2,
                      yawrate = float_0_3 \<rparr>,
           prev_turn_pose = None, turn_count = 3 \<rparr>))"
  using terminal_stability[of "(init no_params)\<lparr>turn_count := 3\<rparr>" exact_ops
          "\<lparr>x = 1, y = 2, theta = 1 / 2\<rparr>" "[\<lparr>x = 3, y = 1, theta = 0\<rparr>]"]
  by (simp add: init_no_params del: process.simps)

text \<open>
  C2 (an invalid configuration is rejected) does not hold of the code:
  \<^verbatim>\<open>__init__\<close> checks nothing. With \<^verbatim>\<open>num_of_sides\<close> set to two the controller
  starts, and its first pose update publishes the forward command. (The float
  operations of this update are \<open>0.0 - 0.0\<close> and \<^verbatim>\<open>math.hypot(0.0, 0.0)\<close>, which
  are exact.)
\<close>

theorem configure_rejects_counterexample:
  "num_of_sides (param (init (no_params\<lparr>ros_num_of_sides := Some 2\<rparr>))) < 3
   \<and> pose_callback exact_ops origin (init (no_params\<lparr>ros_num_of_sides := Some 2\<rparr>)) =
       Some (Inr ([Twist_default\<lparr>linear_x := 1 / 2\<rparr>],
         \<lparr> param = \<lparr> num_of_sides = 2, length_of_side = 1, turn_direction_th = float_0_01 \<rparr>,
           turtle = \<lparr> pose = Some origin, velocity = 1 / 2, yawrate = float_0_3 \<rparr>,
           prev_turn_pose = Some origin, turn_count = 0 \<rparr>))"
  by (simp add: init_def no_params_def get_param_def pose_callback_def set_cmd_vel_def
      can_move_def calc_distance_def exact_ops_simps get_cmd_vel_to_go_straight_def)

text \<open>
  C2, as amended. For every setting of the parameters, also one with fewer
  than three sides, a side length that is not positive or a threshold that is
  not positive, \<^verbatim>\<open>__init__\<close> stores the values as given (3, 1.0 and 0.01 for
  the ones that are not set) and starts with a turn count of zero and no
  reference pose; the first pose update is processed and publishes one
  command, with float operations that round to nearest and convert the
  integers up to the number of sides exactly.
\<close>

theorem init_accepts_every_configuration:
  assumes "round_to_nearest fp"
    and "exact_up_to fp (num_of_sides (param (init ps)))"
  shows "num_of_sides (param (init ps)) = get_param (ros_num_of_sides ps) 3
   \<and> length_of_side (param (init ps)) = get_param (ros_length_of_side ps) 1
   \<and> turn_direction_th (param (init ps)) = get_param (ros_turn_direction_th ps) float_0_01
   \<and> turn_count (init ps) = 0
   \<and> prev_turn_pose (init ps) = None
   \<and> (\<exists>cmd s'. pose_callback fp msg (init ps) = Some (Inr ([cmd], s')))"
proof -
  have "0 \<le> turn_count (init ps)" by (simp add: init_def)
  from pose_callback_step[OF assms this, of msg]
  have "\<exists>cmd s'. pose_callback fp msg (init ps) = Some (Inr ([cmd], s'))" by blast
  then show ?thesis by (simp add: init_def)
qed

theorem init_accepts_every_configuration_witness:
  "round_to_nearest exact_ops
   \<and> exact_up_to exact_ops (num_of_sides (param (init (no_params\<lparr>ros_num_of_sides := Some 2,
         ros_length_of_side := Some (- 1), ros_turn_direction_th := Some 0\<rparr>))))
   \<and> num_of_sides (param (init (no_params\<lparr>ros_num_of_sides := Some 2,
         ros_length_of_side := Some (- 1), ros_turn_direction_th := Some 0\<rparr>))) = 2
   \<and> length_of_side (param (init (no_params\<lparr>ros_num_of_sides := Some 2,
         ros_length_of_side := Some (- 1), ros_turn_direction_th := Some 0\<rparr>))) = - 1
   \<and> turn_direction_th (param (init (no_params\<lparr>ros_num_of_sides := Some 2,
         ros_length_of_side := Some (- 1), ros_turn_direction_th := Some 0\<rparr>))) = 0
   \<and> (\<exists>cmd s'. pose_callback exact_ops origin (init (no_params\<lparr>ros_num_of_sides := Some 2,
         ros_length_of_side := Some (- 1), ros_turn_direction_th := Some 0\<rparr>))
         = Some (Inr ([cmd], s')))"
  using init_accepts_every_configuration[OF exact_ops_round_to_nearest exact_ops_exact_up_to,
          of "no_params\<lparr>ros_num_of_sides := Some 2,
                ros_length_of_side := Some (- 1), ros_turn_direction_th := Some 0\<rparr>" origin]
    exact_ops_round_to_nearest exact_ops_exact_up_to
  by (simp add: get_param_def)

text \<open>
  C3 (last-corner exemption). With float operations that round to nearest and
  convert the integers up to the number of sides exactly: in a state with a
  turn count that is not negative and equals the number of sides minus one,
  with a reference pose \<open>r\<close> established, a pose whose distance from \<open>r\<close>, as
  \<^verbatim>\<open>_calc_distance\<close> computes it, is not below the side length never makes the
  update publish a turn command, whatever the heading of the pose and the
  threshold are: the update publishes the zero command, sets the turn count to
  the number of sides and clears the reference pose.
\<close>

theorem last_corner_exemption:
  assumes "round_to_nearest fp"
    and "exact_up_to fp (num_of_sides (param s))"
    and "0 \<le> turn_count s"
    and "turn_count s = num_of_sides (param s) - 1"
    and "prev_turn_pose s = Some r"
    and "length_of_side (param s) \<le> calc_distance fp r msg"
  shows "pose_callback fp msg s =
           Some (Inr ([Twist_default],
                      s\<lparr>turtle := (turtle s)\<lparr>pose := Some msg\<rparr>,
                        turn_count := num_of_sides (param s),
                        prev_turn_pose := None\<rparr>))"
proof -
  let ?s = "s\<lparr>turtle := (turtle s)\<lparr>pose := Some msg\<rparr>\<rparr>"
  have ex: "exact_up_to fp (num_of_sides (param ?s))" using assms(2) by simp
  have nonneg: "0 \<le> turn_count ?s" using assms(3) by simp
  have last: "turn_count ?s = num_of_sides (param ?s) - 1" using assms(4) by simp
  have stored: "pose (turtle ?s) = Some msg" by simp
  have "can_turn fp ?s = Some (Inr False)"
    by (rule can_turn_last_corner[OF assms(1) ex nonneg last stored])
  moreover have "turn_count ?s < num_of_sides (param ?s)" using assms(4) by simp
  moreover have "\<not> calc_distance fp r msg < length_of_side (param ?s)" using assms(6) by simp
  ultimately have "set_cmd_vel fp ?s =
      Some (Inr ([Twist_default], ?s\<lparr>turn_count := turn_count ?s + 1, prev_turn_pose := None\<rparr>))"
    using assms(5) by (subst set_cmd_vel_corner[of ?s r msg fp False]) simp_all
  with assms(4) show ?thesis by (simp add: pose_callback_def)
qed

theorem last_corner_exemption_witness:
  "round_to_nearest exact_ops
   \<and> exact_up_to exact_ops
       (num_of_sides (param ((init no_params)\<lparr>prev_turn_pose := Some origin, turn_count := 2\<rparr>)))
   \<and> 0 \<le> turn_count ((init no_params)\<lparr>prev_turn_pose := Some origin, turn_count := 2\<rparr>)
   \<and> turn_count ((init no_params)\<lparr>prev_turn_pose := Some origin, turn_count := 2\<rparr>)
     = num_of_sides (param ((init no_params)\<lparr>prev_turn_pose := Some origin, turn_count := 2\<rparr>)) - 1
   \<and> 1 \<le> calc_distance exact_ops origin \<lparr>x = 1, y = 0, theta = 3 / 2\<rparr>
   \<and> pose_callback exact_ops \<lparr>x = 1, y = 0, theta = 3 / 2\<rparr>
         ((init no_params)\<lparr>prev_turn_pose := Some origin, turn_count := 2\<rparr>) =
       Some (Inr ([Twist_default],
         \<lparr> param = \<lparr> num_of_sides = 3, length_of_side = 1, turn_direction_th = float_0_01 \<rparr>,
           turtle = \<lparr> pose = Some \<lparr>x = 1, y = 0, theta = 3 / 2\<rparr>, velocity = 1 / 2,
                      yawrate = float_0_3 \<rparr>,
           prev_turn_pose = None, turn_count = 3 \<rparr>))"
  using last_corner_exemption[OF exact_ops_round_to_nearest exact_ops_exact_up_to,
          of "(init no_params)\<lparr>prev_turn_pose := Some origin, turn_count := 2\<rparr>"
          origin "\<lparr>x = 1, y = 0, theta = 3 / 2\<rparr>"]
    exact_ops_round_to_nearest exact_ops_exact_up_to
  by (simp add: init_no_params calc_distance_def origin_def exact_ops_simps)

text \<open>
  C4 (go-straight phase). In a state that can still move, with a reference
  pose \<open>r\<close> established, a pose whose distance from \<open>r\<close>, as \<^verbatim>\<open>_calc_distance\<close>
  computes it, is below the side length makes the update publish exactly the
  command with the configured velocity as \<open>linear.x\<close> and zero elsewhere; the
  controller keeps its turn count and its reference pose, only the stored pose
  changes. This holds whatever the float operations are.
\<close>

theorem go_straight_phase:
  assumes "turn_count s < num_of_sides (param s)"
    and "prev_turn_pose s = Some r"
    and "calc_distance fp r msg < length_of_side (param s)"
  shows "pose_callback fp msg s =
           Some (Inr ([Twist_default\<lparr>linear_x := velocity (turtle s)\<rparr>],
                      s\<lparr>turtle := (turtle s)\<lparr>pose := Some msg\<rparr>\<rparr>))"
  using assms
  by (simp add: pose_callback_def set_cmd_vel_def can_move_def get_cmd_vel_to_go_straight_def)

theorem go_straight_phase_witness:
  "turn_count ((init no_params)\<lparr>prev_turn_pose := Some origin\<rparr>)
     < num_of_sides (param ((init no_params)\<lparr>prev_turn_pose := Some origin\<rparr>))
   \<and> calc_distance exact_ops origin \<lparr>x = 1 / 2, y = 0, theta = 0\<rparr> < 1
   \<and> pose_callback exact_ops \<lparr>x = 1 / 2, y = 0, theta = 0\<rparr>
         ((init no_params)\<lparr>prev_turn_pose := Some origin\<rparr>) =
       Some (Inr ([Twist_default\<lparr>linear_x := 1 / 2\<rparr>],
         \<lparr> param = \<lparr> num_of_sides = 3, length_of_side = 1, turn_direction_th = float_0_01 \<rparr>,
           turtle = \<lparr> pose = Some \<lparr>x = 1 / 2, y = 0, theta = 0\<rparr>, velocity = 1 / 2,
                      yawrate = float_0_3 \<rparr>,
           prev_turn_pose = Some origin, turn_count = 0 \<rparr>))"
  using go_straight_phase[of "(init no_params)\<lparr>prev_turn_pose := Some origin\<rparr>" origin
          exact_ops "\<lparr>x = 1 / 2, y = 0, theta = 0\<rparr>"]
  by (simp add: init_no_params calc_distance_def origin_def exact_ops_simps)

text \<open>
  C5 (turn-in-place phase). In a state whose turn count is below the number
  of sides minus one, with a reference pose \<open>r\<close> established, a pose whose
  computed distance from \<open>r\<close> is not below the side length and whose heading
  error, the absolute value of the float difference of the computed target
  direction and the heading, is above the threshold makes the update publish
  exactly the command with the configured yaw rate as \<open>angular.z\<close> and zero
  elsewhere; the turn count and the reference pose stay as they are, only the
  stored pose changes. This holds whatever the float operations are.
\<close>

theorem turn_in_place_phase:
  assumes "turn_count s < num_of_sides (param s) - 1"
    and "prev_turn_pose s = Some r"
    and "length_of_side (param s) \<le> calc_distance fp r msg"
    and "calc_target_direction fp s (Some msg) (turn_count s) = Some (Inr target_direction)"
    and "turn_direction_th (param s) < \<bar>fp_sub fp target_direction (theta msg)\<bar>"
  shows "pose_callback fp msg s =
           Some (Inr ([Twist_default\<lparr>angular_z := yawrate (turtle s)\<rparr>],
                      s\<lparr>turtle := (turtle s)\<lparr>pose := Some msg\<rparr>\<rparr>))"
proof -
  let ?s = "s\<lparr>turtle := (turtle s)\<lparr>pose := Some msg\<rparr>\<rparr>"
  have "calc_target_direction fp ?s (pose (turtle ?s)) (turn_count ?s)
          = Some (Inr target_direction)"
    unfolding assms(4)[symmetric] by (rule calc_target_direction_state) simp_all
  then have "can_turn fp ?s = Some (Inr True)"
    using assms(1,5) by (simp add: can_turn_def)
  moreover have "turn_count ?s < num_of_sides (param ?s)" using assms(1) by simp
  moreover have "\<not> calc_distance fp r msg < length_of_side (param ?s)" using assms(3) by simp
  ultimately have "set_cmd_vel fp ?s = Some (Inr ([get_cmd_vel_to_turn_in_place ?s], ?s))"
    using assms(2) by (subst set_cmd_vel_corner[of ?s r msg fp True]) simp_all
  then show ?thesis by (simp add: pose_callback_def get_cmd_vel_to_turn_in_place_def)
qed

theorem turn_in_place_phase_witness:
  "turn_count ((init no_params)\<lparr>prev_turn_pose := Some origin\<rparr>)
     < num_of_sides (param ((init no_params)\<lparr>prev_turn_pose := Some origin\<rparr>)) - 1
   \<and> 1 \<le> calc_distance exact_ops origin \<lparr>x = 1, y = 0, theta = 0\<rparr>
   \<and> calc_target_direction exact_ops ((init no_params)\<lparr>prev_turn_pose := Some origin\<rparr>)
         (Some \<lparr>x = 1, y = 0, theta = 0\<rparr>) 0 = Some (Inr (2 * math_pi / 3))
   \<and> float_0_01 < \<bar>fp_sub exact_ops (2 * math_pi / 3) 0\<bar>
   \<and> pose_callback exact_ops \<lparr>x = 1, y = 0, theta = 0\<rparr>
         ((init no_params)\<lparr>prev_turn_pose := Some origin\<rparr>) =
       Some (Inr ([Twist_default\<lparr>angular_z := float_0_3\<rparr>],
         \<lparr> param = \<lparr> num_of_sides = 3, length_of_side = 1, turn_direction_th = float_0_01 \<rparr>,
           turtle = \<lparr> pose = Some \<lparr>x = 1, y = 0, theta = 0\<rparr>, velocity = 1 / 2,
                      yawrate = float_0_3 \<rparr>,
           prev_turn_pose = Some origin, turn_count = 0 \<rparr>))"
proof -
  let ?s = "(init no_params)\<lparr>prev_turn_pose := Some origin\<rparr>"
  let ?msg = "\<lparr>x = 1, y = 0, theta = 0\<rparr>"
  have h1: "turn_count ?s < num_of_sides (param ?s) - 1"
    by (simp add: init_no_params)
  have h2: "prev_turn_pose ?s = Some origin" by simp
  have h3: "length_of_side (param ?s) \<le> calc_distance exact_ops origin ?msg"
    by (simp add: init_no_params calc_distance_def origin_def exact_ops_simps)
  have "\<not> math_pi < 2 * math_pi / 3" using math_pi_bounds by simp
  then have "wrap_loop exact_ops (2 * math_pi / 3) = Some (2 * math_pi / 3)"
    by (rule wrap_loop_stop)
  then have h4: "calc_target_direction exact_ops ?s (Some ?msg) (turn_count ?s)
      = Some (Inr (2 * math_pi / 3))"
    by (simp add: calc_target_direction_def init_no_params exact_ops_simps)
  have h5: "turn_direction_th (param ?s) < \<bar>fp_sub exact_ops (2 * math_pi / 3) (theta ?msg)\<bar>"
    by (simp add: init_no_params exact_ops_simps float_0_01_def math_pi_def)
  from turn_in_place_phase[OF h1 h2 h3 h4 h5] h1 h3 h4 h5
  show ?thesis by (simp add: init_no_params)
qed

text \<open>
  C6 (corner completion and recapture of the reference). In a state that can
  still move, with a reference pose \<open>r\<close> established, a pose whose computed
  distance from \<open>r\<close> is not below the side length and for which the turn
  condition does not hold makes the update publish the zero command, add
  exactly one to the turn count and clear the reference pose, whatever the
  float operations are. If the controller can still move after that, the next
  update, on a pose \<open>msg'\<close>, runs as the update of the state whose reference pose
  is \<open>msg'\<close>; with float operations that round to nearest the distance it
  computes, from \<open>msg'\<close> to \<open>msg'\<close>, is zero, and with a positive side length it
  therefore publishes the forward command and ends with \<open>msg'\<close> as its
  reference pose.
\<close>

theorem corner_completion_recapture:
  assumes "turn_count s < num_of_sides (param s)"
    and "prev_turn_pose s = Some r"
    and "length_of_side (param s) \<le> calc_distance fp r msg"
    and "calc_target_direction fp s (Some msg) (turn_count s) = Some (Inr target_direction)"
    and "\<not> (turn_direction_th (param s) < \<bar>fp_sub fp target_direction (theta msg)\<bar>
            \<and> turn_count s < num_of_sides (param s) - 1)"
  shows "pose_callback fp msg s =
           Some (Inr ([Twist_default],
                      s\<lparr>turtle := (turtle s)\<lparr>pose := Some msg\<rparr>,
                        turn_count := turn_count s + 1,
                        prev_turn_pose := None\<rparr>))
         \<and> (turn_count s + 1 < num_of_sides (param s) \<longrightarrow>
              pose_callback fp msg' (s\<lparr>turtle := (turtle s)\<lparr>pose := Some msg\<rparr>,
                                       turn_count := turn_count s + 1,
                                       prev_turn_pose := None\<rparr>)
                = set_cmd_vel fp (s\<lparr>turtle := (turtle s)\<lparr>pose := Some msg'\<rparr>,
                                     turn_count := turn_count s + 1,
                                     prev_turn_pose := Some msg'\<rparr>)
              \<and> (round_to_nearest fp \<longrightarrow>
                   calc_distance fp msg' msg' = 0
                   \<and> (0 < length_of_side (param s) \<longrightarrow>
                        pose_callback fp msg' (s\<lparr>turtle := (turtle s)\<lparr>pose := Some msg\<rparr>,
                                                 turn_count := turn_count s + 1,
                                                 prev_turn_pose := None\<rparr>)
                          = Some (Inr ([Twist_default\<lparr>linear_x := velocity (turtle s)\<rparr>],
                                       s\<lparr>turtle := (turtle s)\<lparr>pose := Some msg'\<rparr>,
                                         turn_count := turn_count s + 1,
                                         prev_turn_pose := Some msg'\<rparr>)))))"
proof -
  let ?s = "s\<lparr>turtle := (turtle s)\<lparr>pose := Some msg\<rparr>\<rparr>"
  have "calc_target_direction fp ?s (pose (turtle ?s)) (turn_count ?s)
          = Some (Inr target_direction)"
    unfolding assms(4)[symmetric] by (rule calc_target_direction_state) simp_all
  then have "can_turn fp ?s = Some (Inr False)"
    using assms(5) by (simp add: can_turn_def)
  moreover have "turn_count ?s < num_of_sides (param ?s)" using assms(1) by simp
  moreover have "\<not> calc_distance fp r msg < length_of_side (param ?s)" using assms(3) by simp
  ultimately have "set_cmd_vel fp ?s =
      Some (Inr ([Twist_default], ?s\<lparr>turn_count := turn_count ?s + 1, prev_turn_pose := None\<rparr>))"
    using assms(2) by (subst set_cmd_vel_corner[of ?s r msg fp False]) simp_all
  then have first: "pose_callback fp msg s =
           Some (Inr ([Twist_default],
                      s\<lparr>turtle := (turtle s)\<lparr>pose := Some msg\<rparr>,
                        turn_count := turn_count s + 1,
                        prev_turn_pose := None\<rparr>))"
    by (simp add: pose_callback_def)
  let ?s1 = "s\<lparr>turtle := (turtle s)\<lparr>pose := Some msg\<rparr>,
               turn_count := turn_count s + 1, prev_turn_pose := None\<rparr>"
  let ?s2 = "s\<lparr>turtle := (turtle s)\<lparr>pose := Some msg'\<rparr>,
               turn_count := turn_count s + 1, prev_turn_pose := Some msg'\<rparr>"
  let ?s1' = "?s1\<lparr>turtle := (turtle ?s1)\<lparr>pose := Some msg'\<rparr>\<rparr>"
  have s2: "?s2 = ?s1'\<lparr>prev_turn_pose := Some msg'\<rparr>" by (cases s) simp
  have recapture: "pose_callback fp msg' ?s1 = set_cmd_vel fp ?s2"
    if "turn_count s + 1 < num_of_sides (param s)"
    unfolding pose_callback_def s2
    by (rule set_cmd_vel_recapture) (simp_all add: that)
  have zero: "calc_distance fp msg' msg' = 0" if "round_to_nearest fp"
    by (rule calc_distance_same[OF that])
  have straight: "pose_callback fp msg' ?s1
      = Some (Inr ([Twist_default\<lparr>linear_x := velocity (turtle s)\<rparr>], ?s2))"
    if "turn_count s + 1 < num_of_sides (param s)" "round_to_nearest fp"
      "0 < length_of_side (param s)"
    unfolding recapture[OF that(1)] using that zero[OF that(2)]
    by (simp add: set_cmd_vel_def can_move_def get_cmd_vel_to_go_straight_def)
  from first recapture zero straight show ?thesis by simp
qed

theorem corner_completion_recapture_witness:
  "turn_count ((init (no_params\<lparr>ros_turn_direction_th := Some 4\<rparr>))\<lparr>prev_turn_pose := Some origin\<rparr>)
     < num_of_sides (param ((init (no_params\<lparr>ros_turn_direction_th := Some 4\<rparr>))
         \<lparr>prev_turn_pose := Some origin\<rparr>))
   \<and> 1 \<le> calc_distance exact_ops origin \<lparr>x = 1, y = 0, theta = 0\<rparr>
   \<and> calc_target_direction exact_ops
         ((init (no_params\<lparr>ros_turn_direction_th := Some 4\<rparr>))\<lparr>prev_turn_pose := Some origin\<rparr>)
         (Some \<lparr>x = 1, y = 0, theta = 0\<rparr>) 0 = Some (Inr (2 * math_pi / 3))
   \<and> \<not> 4 < \<bar>fp_sub exact_ops (2 * math_pi / 3) 0\<bar>
   \<and> round_to_nearest exact_ops
   \<and> pose_callback exact_ops \<lparr>x = 1, y = 0, theta = 0\<rparr>
         ((init (no_params\<lparr>ros_turn_direction_th := Some 4\<rparr>))\<lparr>prev_turn_pose := Some origin\<rparr>) =
       Some (Inr ([Twist_default],
         \<lparr> param = \<lparr> num_of_sides = 3, length_of_side = 1, turn_direction_th = 4 \<rparr>,
           turtle = \<lparr> pose = Some \<lparr>x = 1, y = 0, theta = 0\<rparr>, velocity = 1 / 2,
                      yawrate = float_0_3 \<rparr>,
           prev_turn_pose = None, turn_count = 1 \<rparr>))
   \<and> calc_distance exact_ops \<lparr>x = 1, y = 1 / 8, theta = 2\<rparr> \<lparr>x = 1, y = 1 / 8, theta = 2\<rparr> = 0
   \<and> pose_callback exact_ops \<lparr>x = 1, y = 1 / 8, theta = 2\<rparr>
         \<lparr> param = \<lparr> num_of_sides = 3, length_of_side = 1, turn_direction_th = 4 \<rparr>,
           turtle = \<lparr> pose = Some \<lparr>x = 1, y = 0, theta = 0\<rparr>, velocity = 1 / 2,
                      yawrate = float_0_3 \<rparr>,
           prev_turn_pose = None, turn_count = 1 \<rparr> =
       Some (Inr ([Twist_default\<lparr>linear_x := 1 / 2\<rparr>],
         \<lparr> param = \<lparr> num_of_sides = 3, length_of_side = 1, turn_direction_th = 4 \<rparr>,
           turtle = \<lparr> pose = Some \<lparr>x = 1, y = 1 / 8, theta = 2\<rparr>, velocity = 1 / 2,
                      yawrate = float_0_3 \<rparr>,
           prev_turn_pose = Some \<lparr>x = 1, y = 1 / 8, theta = 2\<rparr>, turn_count = 1 \<rparr>))"
proof -
  let ?start = "init (no_params\<lparr>ros_turn_direction_th := Some 4\<rparr>)"
  let ?s = "?start\<lparr>prev_turn_pose := Some origin\<rparr>"
  let ?msg = "\<lparr>x = 1, y = 0, theta = 0\<rparr>"
  let ?msg' = "\<lparr>x = 1, y = 1 / 8, theta = 2\<rparr>"
  have s0: "?start =
     \<lparr> param = \<lparr> num_of_sides = 3, length_of_side = 1, turn_direction_th = 4 \<rparr>,
       turtle = \<lparr> pose = None, velocity = 1 / 2, yawrate = float_0_3 \<rparr>,
       prev_turn_pose = None, turn_count = 0 \<rparr>"
    by (simp add: init_def no_params_def get_param_def)
  have h1: "turn_count ?s < num_of_sides (param ?s)" by (simp add: s0)
  have h2: "prev_turn_pose ?s = Some origin" by simp
  have h3: "length_of_side (param ?s) \<le> calc_distance exact_ops origin ?msg"
    by (simp add: s0 calc_distance_def origin_def exact_ops_simps)
  have "\<not> math_pi < 2 * math_pi / 3" using math_pi_bounds by simp
  then have "wrap_loop exact_ops (2 * math_pi / 3) = Some (2 * math_pi / 3)"
    by (rule wrap_loop_stop)
  then have h4: "calc_target_direction exact_ops ?s (Some ?msg) (turn_count ?s)
      = Some (Inr (2 * math_pi / 3))"
    by (simp add: calc_target_direction_def s0 exact_ops_simps)
  have small: "\<not> 4 < \<bar>fp_sub exact_ops (2 * math_pi / 3) 0\<bar>"
    using math_pi_bounds by (simp add: exact_ops_simps)
  then have h5: "\<not> (turn_direction_th (param ?s)
        < \<bar>fp_sub exact_ops (2 * math_pi / 3) (theta ?msg)\<bar>
      \<and> turn_count ?s < num_of_sides (param ?s) - 1)"
    by (simp add: s0)
  note both = corner_completion_recapture[OF h1 h2 h3 h4 h5, of ?msg']
  have h6: "turn_count ?s + 1 < num_of_sides (param ?s)" by (simp add: s0)
  have h7: "0 < length_of_side (param ?s)" by (simp add: s0)
  note first = both[THEN conjunct1]
  note after = both[THEN conjunct2, THEN mp, OF h6, THEN conjunct2, THEN mp,
    OF exact_ops_round_to_nearest]
  note zero = after[THEN conjunct1]
  note next_update = after[THEN conjunct2, THEN mp, OF h7]
  from first zero next_update h1 h3 h4 small exact_ops_round_to_nearest
  show ?thesis by (simp add: s0)
qed

text \<open>
  C7 (target direction and its normalisation). With float operations that
  round to nearest and convert the integers up to the number of sides exactly,
  at least three and at most \<open>2 ^ 53\<close> sides and a turn count from zero to below
  the number of sides: the target direction is the float product
  \<open>v = 2.0 * math.pi / num_of_sides * (turn_count + 1)\<close> less \<open>k\<close> times
  \<^verbatim>\<open>2.0 * math.pi\<close>, each of these subtractions being exact, where every value
  before the \<open>k\<close>-th subtraction exceeds \<^verbatim>\<open>math.pi\<close> and the result does not;
  nothing is ever added. Here \<open>k\<close> is one when \<open>v\<close> exceeds \<^verbatim>\<open>math.pi\<close> and zero
  otherwise, and the result is above \<^verbatim>\<open>-math.pi\<close> and at most \<^verbatim>\<open>math.pi\<close>,
  hence above \<open>- \<pi>\<close> and at most \<open>\<pi>\<close>.
\<close>

theorem target_direction_normalised:
  assumes rn: "round_to_nearest fp"
    and ex: "exact_up_to fp (num_of_sides (param s))"
    and sides: "3 \<le> num_of_sides (param s)" "num_of_sides (param s) \<le> 2 ^ 53"
    and tc: "0 \<le> turn_count s" "turn_count s < num_of_sides (param s)"
  shows "let v = fp_mul fp (fp_div fp (fp_mul fp 2 math_pi) (fp_of_int fp (num_of_sides (param s))))
                   (fp_of_int fp (turn_count s + 1))
         in \<exists>k. calc_target_direction fp s pose_arg turn_count_arg
                   = Some (Inr (v - real k * (2 * math_pi)))
              \<and> k = (if math_pi < v then 1 else 0)
              \<and> (\<forall>j<k. math_pi < v - real j * (2 * math_pi))
              \<and> v - real k * (2 * math_pi) \<le> math_pi
              \<and> - math_pi < v - real k * (2 * math_pi)
              \<and> v - real k * (2 * math_pi) \<le> pi
              \<and> - pi < v - real k * (2 * math_pi)"
proof -
  let ?n = "num_of_sides (param s)" and ?m = "turn_count s + 1"
  define v where "v = fp_mul fp (fp_div fp (fp_mul fp 2 math_pi) (fp_of_int fp ?n)) (fp_of_int fp ?m)"
  have n: "fp_of_int fp ?n = real_of_int ?n" and m: "fp_of_int fp ?m = real_of_int ?m"
    using ex tc unfolding exact_up_to_def by simp_all
  have range: "1 \<le> ?m" "?m \<le> ?n" using tc by simp_all
  have lower: "0 \<le> v"
    unfolding v_def by (rule target_product_crude(1)[OF rn n m range])
  have upper: "v \<le> 3 * math_pi"
    unfolding v_def by (rule target_product_tight[OF rn n m range sides(2)])
  have "fp_of_int fp ?n \<noteq> 0" using n sides(1) by simp
  then have calc: "calc_target_direction fp s pose_arg turn_count_arg
      = map_option Inr (wrap_loop fp v)"
    by (simp add: calc_target_direction_def v_def)
  have "\<exists>k. calc_target_direction fp s pose_arg turn_count_arg
                   = Some (Inr (v - real k * (2 * math_pi)))
              \<and> k = (if math_pi < v then 1 else 0)
              \<and> (\<forall>j<k. math_pi < v - real j * (2 * math_pi))
              \<and> v - real k * (2 * math_pi) \<le> math_pi
              \<and> - math_pi < v - real k * (2 * math_pi)
              \<and> v - real k * (2 * math_pi) \<le> pi
              \<and> - pi < v - real k * (2 * math_pi)"
  proof (cases "math_pi < v")
    case True
    have "fp_sub fp v (fp_mul fp 2 math_pi) = v - 2 * math_pi"
      unfolding rn_two_pi[OF rn]
    proof (rule rn_sub_exact[OF rn])
      show "2 * math_pi / 2 \<le> v" using True by simp
      show "v \<le> 2 * (2 * math_pi)" using upper math_pi_bounds by linarith
    qed
    then have "wrap_loop fp v = wrap_loop fp (v - 2 * math_pi)"
      using wrap_loop_step[OF True, of fp] by simp
    also have "\<dots> = Some (v - 2 * math_pi)"
    proof (rule wrap_loop_stop)
      from upper show "\<not> math_pi < v - 2 * math_pi" by linarith
    qed
    finally show ?thesis using True upper calc math_pi_less_pi by (intro exI[of _ 1]) simp
  next
    case False
    then have "wrap_loop fp v = Some v" by (rule wrap_loop_stop)
    moreover have "- math_pi < v" using lower math_pi_bounds by linarith
    ultimately show ?thesis using False calc math_pi_less_pi by (intro exI[of _ 0]) simp
  qed
  then show ?thesis unfolding v_def by (simp only: Let_def)
qed

theorem target_direction_normalised_witness:
  "round_to_nearest exact_ops
   \<and> exact_up_to exact_ops (num_of_sides (param ((init no_params)\<lparr>turn_count := 1\<rparr>)))
   \<and> 3 \<le> num_of_sides (param ((init no_params)\<lparr>turn_count := 1\<rparr>))
   \<and> num_of_sides (param ((init no_params)\<lparr>turn_count := 1\<rparr>)) \<le> 2 ^ 53
   \<and> turn_count ((init no_params)\<lparr>turn_count := 1\<rparr>)
       < num_of_sides (param ((init no_params)\<lparr>turn_count := 1\<rparr>))
   \<and> calc_target_direction exact_ops ((init no_params)\<lparr>turn_count := 1\<rparr>) None 7
       = Some (Inr (2 * math_pi / 3 * 2 - 2 * math_pi))
   \<and> - math_pi < 2 * math_pi / 3 * 2 - 2 * math_pi
   \<and> 2 * math_pi / 3 * 2 - 2 * math_pi \<le> math_pi
   \<and> - pi < 2 * math_pi / 3 * 2 - 2 * math_pi
   \<and> 2 * math_pi / 3 * 2 - 2 * math_pi \<le> pi"
proof -
  have "math_pi < 2 * math_pi / 3 * 2" using math_pi_bounds by simp
  with target_direction_normalised[OF exact_ops_round_to_nearest exact_ops_exact_up_to,
          of "(init no_params)\<lparr>turn_count := 1\<rparr>" None 7]
    exact_ops_round_to_nearest exact_ops_exact_up_to
  show ?thesis by (simp add: init_no_params exact_ops_simps)
qed

text \<open>
  C8 (invariant and monotonicity of the turn count). With float operations
  that round to nearest and convert the integers up to the number of sides
  exactly, and a number of sides that is not negative, as in every valid
  configuration: every run of pose updates from the initial state returns and
  ends in a state with the same parameters whose turn count is at least zero
  and at most the number of sides; one more update from there returns and
  leaves the turn count as it is or adds exactly one to it.
\<close>

theorem turn_count_invariant:
  assumes "round_to_nearest fp"
    and "exact_up_to fp (num_of_sides (param (init ps)))"
    and "0 \<le> num_of_sides (param (init ps))"
  shows "\<exists>out s. process fp (init ps) msgs = Some (Inr (out, s))
           \<and> param s = param (init ps)
           \<and> 0 \<le> turn_count s \<and> turn_count s \<le> num_of_sides (param s)
           \<and> (\<exists>out' s'. pose_callback fp msg s = Some (Inr (out', s'))
                 \<and> (turn_count s' = turn_count s \<or> turn_count s' = turn_count s + 1))"
proof -
  have t0: "turn_count (init ps) = 0" by (simp add: init_def)
  then have "0 \<le> turn_count (init ps)" by simp
  from process_invariant[OF assms(1,2) this, of msgs] obtain out s where
    run: "process fp (init ps) msgs = Some (Inr (out, s))" "param s = param (init ps)"
      "turn_count (init ps) \<le> turn_count s"
      "turn_count (init ps) \<le> num_of_sides (param (init ps))
         \<longrightarrow> turn_count s \<le> num_of_sides (param (init ps))"
    by blast
  from run(3) t0 have nonneg: "0 \<le> turn_count s" by simp
  from run(4) t0 assms(3) run(2) have le: "turn_count s \<le> num_of_sides (param s)" by simp
  from assms(2) run(2) have ex: "exact_up_to fp (num_of_sides (param s))" by simp
  from pose_callback_step[OF assms(1) ex nonneg, of msg] obtain cmd s' where
    "pose_callback fp msg s = Some (Inr ([cmd], s'))"
    "turn_count s' = turn_count s \<or> turn_count s' = turn_count s + 1"
    by blast
  with run(1,2) nonneg le show ?thesis by blast
qed

theorem turn_count_invariant_witness:
  "round_to_nearest exact_ops
   \<and> exact_up_to exact_ops (num_of_sides (param (init no_params)))
   \<and> 0 \<le> num_of_sides (param (init no_params))
   \<and> (\<exists>out s. process exact_ops (init no_params) [origin, \<lparr>x = 1, y = 0, theta = 0\<rparr>]
                  = Some (Inr (out, s))
           \<and> param s = param (init no_params)
           \<and> 0 \<le> turn_count s \<and> turn_count s \<le> num_of_sides (param s)
           \<and> (\<exists>out' s'. pose_callback exact_ops \<lparr>x = 1, y = 0, theta = 2\<rparr> s
                           = Some (Inr (out', s'))
                 \<and> (turn_count s' = turn_count s \<or> turn_count s' = turn_count s + 1)))"
  using turn_count_invariant[OF exact_ops_round_to_nearest exact_ops_exact_up_to,
          of no_params "[origin, \<lparr>x = 1, y = 0, theta = 0\<rparr>]" "\<lparr>x = 1, y = 0, theta = 2\<rparr>"]
    exact_ops_round_to_nearest exact_ops_exact_up_to
  by (simp add: init_no_params del: process.simps)

text \<open>
  C9 (the pose update is total). With float operations that round to nearest
  and convert the integers up to the number of sides exactly, whatever the
  parameters are: every run of pose updates from the initial state returns
  without raising and publishes one message per pose; from the state it
  reaches, one more update returns (the normalisation loop included), raises
  nothing and publishes exactly one message: the zero command, the forward
  command or the turn command.
\<close>

theorem pose_update_total:
  assumes "round_to_nearest fp"
    and "exact_up_to fp (num_of_sides (param (init ps)))"
  shows "\<exists>out s. process fp (init ps) msgs = Some (Inr (out, s))
      \<and> length out = length msgs
      \<and> (\<exists>cmd s'. pose_callback fp msg s = Some (Inr ([cmd], s'))
            \<and> (cmd = Twist_default
                 \<or> cmd = Twist_default\<lparr>linear_x := velocity (turtle s)\<rparr>
                 \<or> cmd = Twist_default\<lparr>angular_z := yawrate (turtle s)\<rparr>))"
proof -
  have "0 \<le> turn_count (init ps)" by (simp add: init_def)
  from process_invariant[OF assms this, of msgs] obtain out s where
    run: "process fp (init ps) msgs = Some (Inr (out, s))" "length out = length msgs"
      "param s = param (init ps)" "turn_count (init ps) \<le> turn_count s"
    by blast
  from run(4) have nonneg: "0 \<le> turn_count s" by (simp add: init_def)
  from assms(2) run(3) have ex: "exact_up_to fp (num_of_sides (param s))" by simp
  from pose_callback_step[OF assms(1) ex nonneg, of msg] obtain cmd s' where
    "pose_callback fp msg s = Some (Inr ([cmd], s'))"
    "cmd = Twist_default
       \<or> cmd = Twist_default\<lparr>linear_x := velocity (turtle s)\<rparr>
       \<or> cmd = Twist_default\<lparr>angular_z := yawrate (turtle s)\<rparr>"
    by blast
  with run(1,2) show ?thesis by blast
qed

theorem pose_update_total_witness:
  "round_to_nearest exact_ops
   \<and> exact_up_to exact_ops (num_of_sides (param (init no_params)))
   \<and> (\<exists>out s. process exact_ops (init no_params)
                  [origin, \<lparr>x = 1 / 2, y = 0, theta = 0\<rparr>, \<lparr>x = 1, y = 0, theta = 0\<rparr>]
                  = Some (Inr (out, s))
      \<and> length out = length [origin, \<lparr>x = 1 / 2, y = 0, theta = 0\<rparr>, \<lparr>x = 1, y = 0, theta = 0\<rparr>]
      \<and> (\<exists>cmd s'. pose_callback exact_ops \<lparr>x = 1, y = 0, theta = 2\<rparr> s = Some (Inr ([cmd], s'))
            \<and> (cmd = Twist_default
                 \<or> cmd = Twist_default\<lparr>linear_x := velocity (turtle s)\<rparr>
                 \<or> cmd = Twist_default\<lparr>angular_z := yawrate (turtle s)\<rparr>)))"
  using pose_update_total[OF exact_ops_round_to_nearest exact_ops_exact_up_to,
          of no_params "[origin, \<lparr>x = 1 / 2, y = 0, theta = 0\<rparr>, \<lparr>x = 1, y = 0, theta = 0\<rparr>]"
          "\<lparr>x = 1, y = 0, theta = 2\<rparr>"]
    exact_ops_round_to_nearest exact_ops_exact_up_to
  by (simp only: simp_thms)

text \<open>
  C10 (the heading target does not depend on the pose). Two calls of
  \<^verbatim>\<open>_calc_target_direction\<close> on controllers with the same turn count and the
  same number of sides give the same outcome, whatever the pose argument and
  the turn-count argument of each call are, whatever else differs between the
  two controllers, and whatever the float operations are.
\<close>

theorem target_direction_ignores_arguments:
  assumes "turn_count s1 = turn_count s2"
    and "num_of_sides (param s1) = num_of_sides (param s2)"
  shows "calc_target_direction fp s1 pose1 turn_count1
           = calc_target_direction fp s2 pose2 turn_count2"
  unfolding calc_target_direction_def by (simp only: assms)

theorem target_direction_ignores_arguments_witness:
  "turn_count ((init no_params)\<lparr>prev_turn_pose := Some origin\<rparr>)
     = turn_count ((init no_params)\<lparr>param := (param (init no_params))\<lparr>length_of_side := 2\<rparr>\<rparr>)
   \<and> calc_target_direction exact_ops ((init no_params)\<lparr>prev_turn_pose := Some origin\<rparr>)
         (Some \<lparr>x = 1, y = 0, theta = 0\<rparr>) 0
     = calc_target_direction exact_ops
         ((init no_params)\<lparr>param := (param (init no_params))\<lparr>length_of_side := 2\<rparr>\<rparr>)
         (Some \<lparr>x = 4, y = 5, theta = 3\<rparr>) 2"
  using target_direction_ignores_arguments[of "(init no_params)\<lparr>prev_turn_pose := Some origin\<rparr>"
      "(init no_params)\<lparr>param := (param (init no_params))\<lparr>length_of_side := 2\<rparr>\<rparr>"
      exact_ops "Some \<lparr>x = 1, y = 0, theta = 0\<rparr>" 0 "Some \<lparr>x = 4, y = 5, theta = 3\<rparr>" 2]
  by (simp add: init_no_params)

end
